theory Spec2Isabelle
  imports Main
begin

section \<open>Shared vocabulary\<close>

text \<open>
  Socket identifiers and room names are both JavaScript strings, and Socket.IO keeps them
  in one namespace: the adapter's room table is keyed by strings, and every connected
  socket is a member of the room named by its own identifier.
\<close>

type_synonym sid = string
type_synonym room = string

text \<open>
  JavaScript truthiness of a value that is either absent (\<open>undefined\<close>, \<open>null\<close>) or a
  string: absent and the empty string are falsy.
\<close>

fun truthy :: "string option \<Rightarrow> bool" where
  "truthy None = False"
| "truthy (Some s) = (s \<noteq> [])"

text \<open>
  The signalling payload \<open>data\<close> of a \<open>signal\<close> message:
  \<open>{type, sdp?, candidate?, to?}\<close>. The field names carry a prefix because \<open>type\<close>,
  \<open>to\<close> and \<open>from\<close> are reserved words.
\<close>

record sig_data =
  sig_type :: string
  sig_sdp :: "string option"
  sig_candidate :: "string option"
  sig_to :: "string option"

section \<open>The ICE configuration endpoint (server.ts, GET /ice.json)\<close>

datatype ice_urls = UrlList "string list" | UrlString string

record ice_server =
  urls :: ice_urls
  username :: "string option"
  credential :: "string option"

text \<open>The four environment variables the handler reads; an unset variable is \<open>None\<close>.\<close>

record process_env =
  STUN_URL :: "string option"
  TURN_URL :: "string option"
  TURN_USERNAME :: "string option"
  TURN_PASSWORD :: "string option"

record ice_response =
  iceServers :: "ice_server list"

definition metered_user :: string where
  "metered_user = ''a78e90d33f695bcbf13ee7b9''"

definition metered_pass :: string where
  "metered_pass = ''+M16OuXBI+HyxP4i''"

definition fallback_servers :: "ice_server list" where
  "fallback_servers =
     [\<lparr>urls = UrlString ''stun:stun.relay.metered.ca:80'', username = None, credential = None\<rparr>,
      \<lparr>urls = UrlString ''turn:global.relay.metered.ca:80'',
        username = Some metered_user, credential = Some metered_pass\<rparr>,
      \<lparr>urls = UrlString ''turn:global.relay.metered.ca:80?transport=tcp'',
        username = Some metered_user, credential = Some metered_pass\<rparr>,
      \<lparr>urls = UrlString ''turn:global.relay.metered.ca:443'',
        username = Some metered_user, credential = Some metered_pass\<rparr>,
      \<lparr>urls = UrlString ''turns:global.relay.metered.ca:443?transport=tcp'',
        username = Some metered_user, credential = Some metered_pass\<rparr>]"

definition ice_json :: "process_env \<Rightarrow> ice_response" where
  "ice_json env =
     (let stunUrl = STUN_URL env;
          turnUrl = TURN_URL env;
          turnUser = TURN_USERNAME env;
          turnPass = TURN_PASSWORD env;
          s0 = [];
          s1 = (if truthy stunUrl
                then s0 @ [\<lparr>urls = UrlList [the stunUrl], username = None, credential = None\<rparr>]
                else s0);
          s2 = (if truthy turnUrl \<and> truthy turnUser \<and> truthy turnPass
                then s1 @ [\<lparr>urls = UrlList [the turnUrl], username = turnUser,
                             credential = turnPass\<rparr>]
                else s1);
          s3 = (if length s2 = 0 then s2 @ fallback_servers else s2)
      in \<lparr>iceServers = s3\<rparr>)"

section \<open>The signalling server (server.ts)\<close>

subsection \<open>The Socket.IO adapter\<close>

text \<open>
  The adapter holds two tables: \<open>rooms\<close> (room name to the set of member sockets) and
  \<open>sids\<close> (socket to the set of rooms it is in, which is what \<open>socket.rooms\<close> reads).
  A JavaScript \<open>Set\<close> iterates in insertion order and holds no duplicates; it is a list
  here, with \<open>set_add\<close> as \<open>Set.add\<close>. A room with no member does not exist, so
  \<open>rooms.get\<close> returning \<open>undefined\<close> is the empty list.
\<close>

record adapter =
  rooms :: "room \<Rightarrow> sid list"
  sids :: "sid \<Rightarrow> room list"

definition set_add :: "'a list \<Rightarrow> 'a \<Rightarrow> 'a list" where
  "set_add xs x = (if x \<in> set xs then xs else xs @ [x])"

definition init_adapter :: adapter where
  "init_adapter = \<lparr>rooms = (\<lambda>_. []), sids = (\<lambda>_. [])\<rparr>"

text \<open>\<open>socket.join(roomId)\<close>.\<close>

definition socket_join :: "adapter \<Rightarrow> sid \<Rightarrow> room \<Rightarrow> adapter" where
  "socket_join st s r =
     st\<lparr>rooms := (rooms st)(r := set_add (rooms st r) s),
        sids := (sids st)(s := set_add (sids st s) r)\<rparr>"

text \<open>On connection Socket.IO puts the socket into the room named by its own identifier.\<close>

definition connect :: "adapter \<Rightarrow> sid \<Rightarrow> adapter" where
  "connect st s = socket_join st s s"

text \<open>After the \<open>disconnecting\<close> handlers have run, Socket.IO takes the socket out of all its rooms.\<close>

definition leave_all :: "adapter \<Rightarrow> sid \<Rightarrow> adapter" where
  "leave_all st s =
     st\<lparr>rooms := (\<lambda>r. if r \<in> set (sids st s) then removeAll s (rooms st r) else rooms st r),
        sids := (sids st)(s := [])\<rparr>"

subsection \<open>Messages and effects\<close>

text \<open>
  The three server-to-client messages. \<open>Signal from data\<close> is the object
  \<open>{from, data}\<close>.
\<close>

datatype srv_msg = PeerJoined sid | PeerLeft sid | Signal sid sig_data

text \<open>
  What a handler does, in the order it does it: \<open>Emit x m\<close> delivers message \<open>m\<close> to
  socket \<open>x\<close>, \<open>JoinRoom s r\<close> is the membership update of \<open>socket.join\<close>.
\<close>

datatype srv_effect = Emit sid srv_msg | JoinRoom sid room


text \<open>\<open>socket.emit(m)\<close>: to the socket itself.\<close>

definition socket_emit :: "sid \<Rightarrow> srv_msg \<Rightarrow> srv_effect list" where
  "socket_emit s m = [Emit s m]"

text \<open>
  \<open>socket.to(r).emit(m)\<close>: a broadcast to room \<open>r\<close> whose except set is the room named
  by the sender's identifier. Socket.IO leaves out every socket that is in that room: the
  sender, which is in it for as long as it is connected, and any other socket that has
  joined a room of that name.
\<close>

definition socket_to_emit :: "adapter \<Rightarrow> sid \<Rightarrow> room \<Rightarrow> srv_msg \<Rightarrow> srv_effect list" where
  "socket_to_emit st s r m =
     map (\<lambda>x. Emit x m) (filter (\<lambda>x. x \<notin> set (rooms st s)) (rooms st r))"

text \<open>
  \<open>io.to(r).emit(m)\<close>: a broadcast to room \<open>r\<close> with an empty except set, so to every
  socket in the room, the sender included if it is there.
\<close>

definition io_to_emit :: "adapter \<Rightarrow> room \<Rightarrow> srv_msg \<Rightarrow> srv_effect list" where
  "io_to_emit st r m = map (\<lambda>x. Emit x m) (rooms st r)"

subsection \<open>The three handlers\<close>

definition on_join :: "adapter \<Rightarrow> sid \<Rightarrow> room \<Rightarrow> adapter \<times> srv_effect list" where
  "on_join st s roomId =
     (let socketsInRoom = rooms st roomId;
          announces = concat (map (\<lambda>existingSocketId.
                        if existingSocketId \<noteq> s
                        then socket_emit s (PeerJoined existingSocketId) else [])
                      socketsInRoom);
          st' = socket_join st s roomId;
          notices = socket_to_emit st' s roomId (PeerJoined s)
      in (st', announces @ [JoinRoom s roomId] @ notices))"

definition on_signal :: "adapter \<Rightarrow> sid \<Rightarrow> room \<Rightarrow> sig_data \<Rightarrow> srv_effect list" where
  "on_signal st s roomId data =
     (let target = sig_to data
      in if truthy target
         then io_to_emit st (the target) (Signal s data)
         else socket_to_emit st s roomId (Signal s data))"

definition on_disconnecting :: "adapter \<Rightarrow> sid \<Rightarrow> srv_effect list" where
  "on_disconnecting st s =
     (let rs = filter (\<lambda>r. r \<noteq> s) (sids st s)
      in concat (map (\<lambda>roomId. socket_to_emit st s roomId (PeerLeft s)) rs))"

text \<open>A disconnect: the handler runs on the membership as it still is, then the socket leaves.\<close>

definition disconnect :: "adapter \<Rightarrow> sid \<Rightarrow> adapter \<times> srv_effect list" where
  "disconnect st s = (leave_all st s, on_disconnecting st s)"

subsection \<open>Runs of the server\<close>

text \<open>
  What reaches the server: a new connection, the two client messages, and a disconnect
  (graceful or not: Socket.IO fires \<open>disconnecting\<close> for every reason, and the handler
  takes no argument).
\<close>

datatype srv_event =
    Connect sid
  | Join sid room
  | SignalMsg sid room sig_data
  | Disconnect sid

fun server_step :: "adapter \<Rightarrow> srv_event \<Rightarrow> adapter \<times> srv_effect list" where
  "server_step st (Connect s) = (connect st s, [])"
| "server_step st (Join s r) = on_join st s r"
| "server_step st (SignalMsg s r d) = (st, on_signal st s r d)"
| "server_step st (Disconnect s) = disconnect st s"

fun server_run :: "adapter \<Rightarrow> srv_event list \<Rightarrow> adapter \<times> srv_effect list" where
  "server_run st [] = (st, [])"
| "server_run st (ev # evs) =
     (let (st1, l1) = server_step st ev;
          (st2, l2) = server_run st1 evs
      in (st2, l1 @ l2))"

section \<open>The browser client (client/app.ts)\<close>

subsection \<open>Browser objects\<close>

text \<open>
  A media track is an opaque handle and a \<open>MediaStream\<close> is the list of its tracks. A
  session description is the object \<open>{type, sdp}\<close> handed to
  \<open>setLocalDescription\<close> and \<open>setRemoteDescription\<close>.
\<close>

type_synonym track = string
type_synonym stream = "track list"

record description =
  desc_type :: string
  desc_sdp :: "string option"

text \<open>
  What the client can observe of an \<open>RTCPeerConnection\<close>: its configuration, the tracks
  added to it, whether the page installed its \<open>track\<close> and \<open>icecandidate\<close> listeners,
  the descriptions applied and the remote candidates accepted.
\<close>

record peer_conn =
  pc_config :: "ice_server list"
  pc_tracks :: "track list"
  track_listener :: bool
  icecandidate_listener :: bool
  localDescription :: "description option"
  remoteDescription :: "description option"
  remoteCandidates :: "string option list"

definition new_pc :: "ice_server list \<Rightarrow> peer_conn" where
  "new_pc cfg = \<lparr>pc_config = cfg, pc_tracks = [], track_listener = False,
     icecandidate_listener = False, localDescription = None, remoteDescription = None,
     remoteCandidates = []\<rparr>"

text \<open>A remote \<open>video\<close> element, and the \<open>section\<close> wrapper appended to the container.\<close>

record video_el =
  srcObject :: "stream option"

record wrapper =
  wrap_title :: string
  wrap_peer :: sid

text \<open>
  The outcomes of the browser's asynchronous primitives, which the page does not control:
  \<open>None\<close> or \<open>False\<close> is a rejected promise. They may depend on the connection they
  are called on.
\<close>

record browser =
  getUserMedia :: "stream option"
  createOffer :: "peer_conn \<Rightarrow> string option"
  createAnswer :: "peer_conn \<Rightarrow> string option"
  setLocalDescription :: "peer_conn \<Rightarrow> description \<Rightarrow> bool"
  setRemoteDescription :: "peer_conn \<Rightarrow> description \<Rightarrow> bool"
  addIceCandidate :: "peer_conn \<Rightarrow> string option \<Rightarrow> bool"

subsection \<open>Client state and effects\<close>

text \<open>The module-level variables of app.ts.\<close>

record client =
  localStream :: "stream option"
  peerConnections :: "sid \<rightharpoonup> peer_conn"
  remoteVideos :: "sid \<rightharpoonup> video_el"
  remoteContainer :: "wrapper list"
  roomId :: "string option"
  client_iceServers :: "ice_server list"

definition init_client :: client where
  "init_client = \<lparr>localStream = None, peerConnections = Map.empty, remoteVideos = Map.empty,
     remoteContainer = [], roomId = None, client_iceServers = []\<rparr>"

text \<open>
  The calls a handler makes on the socket, on a peer connection (named by the peer it is
  registered for) and on the document, in the order it makes them. A primitive is logged
  when it is called, also when it then rejects.
\<close>

datatype client_effect =
    SockEmitJoin string
  | SockEmitSignal "string option" sig_data
  | NewPC sid
  | AddTrack sid track
  | CreateOffer sid
  | CreateAnswer sid
  | SetLocalDescription sid description
  | SetRemoteDescription sid description
  | AddIceCandidate sid "string option"
  | ClosePC sid
  | CreateVideo sid
  | RemoveVideo sid
  | GetUserMedia
  | Alert string

text \<open>An \<open>async\<close> handler either runs to its end or stops at a rejected \<open>await\<close>.\<close>

datatype outcome = Resolved | Rejected

subsection \<open>createPeerConnection and the listeners it installs\<close>

definition createPeerConnection :: "client \<Rightarrow> sid \<Rightarrow> client \<times> client_effect list" where
  "createPeerConnection st peerId =
     (case peerConnections st peerId of
        Some pc \<Rightarrow> (st, [])
      | None \<Rightarrow>
          (let pc = new_pc (client_iceServers st);
               st1 = st\<lparr>peerConnections := (peerConnections st)(peerId \<mapsto> pc)\<rparr>
           in case localStream st of
                None \<Rightarrow> (st1, [NewPC peerId])
              | Some ls \<Rightarrow>
                  (let pc' = pc\<lparr>pc_tracks := ls, track_listener := True,
                                 icecandidate_listener := True\<rparr>
                   in (st1\<lparr>peerConnections := (peerConnections st1)(peerId \<mapsto> pc')\<rparr>,
                       [NewPC peerId] @ map (AddTrack peerId) ls))))"

text \<open>
  The body of the \<open>track\<close> listener of the connection registered for \<open>peerId\<close>;
  \<open>strm\<close> is the first element of \<open>e.streams\<close>.
\<close>

definition track_handler :: "client \<Rightarrow> sid \<Rightarrow> stream option \<Rightarrow> client \<times> client_effect list" where
  "track_handler st peerId strm =
     (let (st1, l1) =
            (if remoteVideos st peerId = None
             then (st\<lparr>remoteContainer := remoteContainer st @
                         [\<lparr>wrap_title = ''Peer '' @ take 6 peerId, wrap_peer = peerId\<rparr>],
                       remoteVideos := (remoteVideos st)(peerId \<mapsto> \<lparr>srcObject = None\<rparr>)\<rparr>,
                   [CreateVideo peerId])
             else (st, []));
          video = the (remoteVideos st1 peerId)
      in (st1\<lparr>remoteVideos := (remoteVideos st1)(peerId \<mapsto> video\<lparr>srcObject := strm\<rparr>)\<rparr>, l1))"

text \<open>The body of the \<open>icecandidate\<close> listener; \<open>cand\<close> is \<open>e.candidate\<close>.\<close>

definition icecandidate_handler ::
  "client \<Rightarrow> sid \<Rightarrow> string option \<Rightarrow> client \<times> client_effect list" where
  "icecandidate_handler st peerId cand =
     (if cand \<noteq> None \<and> truthy (roomId st)
      then (st, [SockEmitSignal (roomId st)
                   \<lparr>sig_type = ''candidate'', sig_sdp = None, sig_candidate = cand,
                    sig_to = Some peerId\<rparr>])
      else (st, []))"

text \<open>
  The browser firing an event on the connection registered for \<open>peerId\<close>: the listener
  runs if it was installed. A connection that was closed and unregistered fires nothing.
\<close>

definition pc_track_event :: "client \<Rightarrow> sid \<Rightarrow> stream option \<Rightarrow> client \<times> client_effect list" where
  "pc_track_event st peerId strm =
     (case peerConnections st peerId of
        None \<Rightarrow> (st, [])
      | Some pc \<Rightarrow> if track_listener pc then track_handler st peerId strm else (st, []))"

definition pc_icecandidate_event ::
  "client \<Rightarrow> sid \<Rightarrow> string option \<Rightarrow> client \<times> client_effect list" where
  "pc_icecandidate_event st peerId cand =
     (case peerConnections st peerId of
        None \<Rightarrow> (st, [])
      | Some pc \<Rightarrow>
          if icecandidate_listener pc then icecandidate_handler st peerId cand else (st, []))"

subsection \<open>Negotiation\<close>

text \<open>
  Each \<open>async\<close> function is one step of the model: it runs from its first statement to
  its last, or to the first \<open>await\<close> whose promise is rejected, and the events that arrive
  while it is suspended are taken to be handled after it. The variable \<open>pc\<close> of the source
  is the connection registered for the peer, which \<open>createPeerConnection\<close> has just
  returned or created.
\<close>

definition makeCall :: "browser \<Rightarrow> client \<Rightarrow> sid \<Rightarrow> client \<times> client_effect list \<times> outcome" where
  "makeCall env st peerId =
     (let (st1, l1) = createPeerConnection st peerId;
          pc = the (peerConnections st1 peerId)
      in case createOffer env pc of
           None \<Rightarrow> (st1, l1 @ [CreateOffer peerId], Rejected)
         | Some offer_sdp \<Rightarrow>
             (let offer = \<lparr>desc_type = ''offer'', desc_sdp = Some offer_sdp\<rparr>
              in if \<not> setLocalDescription env pc offer
                 then (st1, l1 @ [CreateOffer peerId, SetLocalDescription peerId offer], Rejected)
                 else (st1\<lparr>peerConnections := (peerConnections st1)
                               (peerId \<mapsto> pc\<lparr>localDescription := Some offer\<rparr>)\<rparr>,
                       l1 @ [CreateOffer peerId, SetLocalDescription peerId offer,
                             SockEmitSignal (roomId st1)
                               \<lparr>sig_type = ''offer'', sig_sdp = Some offer_sdp,
                                sig_candidate = None, sig_to = Some peerId\<rparr>],
                       Resolved)))"

definition handleOffer ::
  "browser \<Rightarrow> client \<Rightarrow> sid \<Rightarrow> string option \<Rightarrow> client \<times> client_effect list \<times> outcome" where
  "handleOffer env st from_id sdp =
     (let (st1, l1) = createPeerConnection st from_id;
          pc = the (peerConnections st1 from_id);
          remote = \<lparr>desc_type = ''offer'', desc_sdp = sdp\<rparr>
      in if \<not> setRemoteDescription env pc remote
         then (st1, l1 @ [SetRemoteDescription from_id remote], Rejected)
         else
           (let pc1 = pc\<lparr>remoteDescription := Some remote\<rparr>;
                st2 = st1\<lparr>peerConnections := (peerConnections st1)(from_id \<mapsto> pc1)\<rparr>
            in case createAnswer env pc1 of
                 None \<Rightarrow>
                   (st2, l1 @ [SetRemoteDescription from_id remote, CreateAnswer from_id],
                    Rejected)
               | Some answer_sdp \<Rightarrow>
                   (let answer = \<lparr>desc_type = ''answer'', desc_sdp = Some answer_sdp\<rparr>
                    in if \<not> setLocalDescription env pc1 answer
                       then (st2, l1 @ [SetRemoteDescription from_id remote,
                                        CreateAnswer from_id,
                                        SetLocalDescription from_id answer], Rejected)
                       else (st2\<lparr>peerConnections := (peerConnections st2)
                                     (from_id \<mapsto> pc1\<lparr>localDescription := Some answer\<rparr>)\<rparr>,
                             l1 @ [SetRemoteDescription from_id remote,
                                   CreateAnswer from_id,
                                   SetLocalDescription from_id answer,
                                   SockEmitSignal (roomId st2)
                                     \<lparr>sig_type = ''answer'', sig_sdp = Some answer_sdp,
                                      sig_candidate = None, sig_to = Some from_id\<rparr>],
                             Resolved))))"

definition handleAnswer ::
  "browser \<Rightarrow> client \<Rightarrow> sid \<Rightarrow> string option \<Rightarrow> client \<times> client_effect list \<times> outcome" where
  "handleAnswer env st from_id sdp =
     (case peerConnections st from_id of
        None \<Rightarrow> (st, [], Resolved)
      | Some pc \<Rightarrow>
          (let remote = \<lparr>desc_type = ''answer'', desc_sdp = sdp\<rparr>
           in if \<not> setRemoteDescription env pc remote
              then (st, [SetRemoteDescription from_id remote], Rejected)
              else (st\<lparr>peerConnections := (peerConnections st)
                           (from_id \<mapsto> pc\<lparr>remoteDescription := Some remote\<rparr>)\<rparr>,
                    [SetRemoteDescription from_id remote], Resolved)))"

text \<open>The \<open>try\<close>/\<open>catch\<close> around \<open>addIceCandidate\<close> turns a rejection into a normal return.\<close>

definition handleCandidate ::
  "browser \<Rightarrow> client \<Rightarrow> sid \<Rightarrow> string option \<Rightarrow> client \<times> client_effect list \<times> outcome" where
  "handleCandidate env st from_id cand =
     (case peerConnections st from_id of
        None \<Rightarrow> (st, [], Resolved)
      | Some pc \<Rightarrow>
          if addIceCandidate env pc cand
          then (st\<lparr>peerConnections := (peerConnections st)
                       (from_id \<mapsto> pc\<lparr>remoteCandidates := remoteCandidates pc @ [cand]\<rparr>)\<rparr>,
                [AddIceCandidate from_id cand], Resolved)
          else (st, [AddIceCandidate from_id cand], Resolved))"

subsection \<open>Event handlers\<close>

text \<open>
  The click on the join button; \<open>v\<close> is \<open>roomInput.value.trim()\<close>. \<open>initMedia\<close> is the
  awaited \<open>getUserMedia\<close> followed by the assignment of \<open>localStream\<close>.
\<close>

definition on_join_click :: "browser \<Rightarrow> client \<Rightarrow> string \<Rightarrow> client \<times> client_effect list \<times> outcome" where
  "on_join_click env st v =
     (let st1 = st\<lparr>roomId := Some v\<rparr>
      in if \<not> truthy (roomId st1)
         then (st1, [Alert ''Ingresa un ID de sala''], Resolved)
         else case getUserMedia env of
                None \<Rightarrow> (st1, [GetUserMedia], Rejected)
              | Some s \<Rightarrow> (st1\<lparr>localStream := Some s\<rparr>, [GetUserMedia, SockEmitJoin v], Resolved))"

definition client_on_peer_joined ::
  "browser \<Rightarrow> client \<Rightarrow> sid \<Rightarrow> client \<times> client_effect list \<times> outcome" where
  "client_on_peer_joined env st peerId = makeCall env st peerId"

definition client_on_signal ::
  "browser \<Rightarrow> client \<Rightarrow> sid \<Rightarrow> sig_data \<Rightarrow> client \<times> client_effect list \<times> outcome" where
  "client_on_signal env st from_id data =
     (if sig_type data = ''offer'' then handleOffer env st from_id (sig_sdp data)
      else if sig_type data = ''answer'' then handleAnswer env st from_id (sig_sdp data)
      else if sig_type data = ''candidate'' then handleCandidate env st from_id (sig_candidate data)
      else (st, [], Resolved))"

text \<open>
  The \<open>peer-left\<close> handler. \<open>video.parentElement?.remove()\<close> takes the wrapper of the
  peer's video element out of the container.
\<close>

definition client_on_peer_left :: "client \<Rightarrow> sid \<Rightarrow> client \<times> client_effect list" where
  "client_on_peer_left st peerId =
     (let (st1, l1) =
            (case peerConnections st peerId of
               Some pc \<Rightarrow>
                 (st\<lparr>peerConnections := (peerConnections st)(peerId := None)\<rparr>, [ClosePC peerId])
             | None \<Rightarrow> (st, []));
          (st2, l2) =
            (case remoteVideos st1 peerId of
               Some video \<Rightarrow>
                 (st1\<lparr>remoteContainer := filter (\<lambda>w. wrap_peer w \<noteq> peerId) (remoteContainer st1),
                      remoteVideos := (remoteVideos st1)(peerId := None)\<rparr>,
                  [RemoveVideo peerId])
             | None \<Rightarrow> (st1, []))
      in (st2, l1 @ l2))"

subsection \<open>Runs of the client\<close>

text \<open>
  Everything that can reach the page: the three socket messages, the two events of a peer
  connection, and the join click. The camera toggle is left out: it only flips the
  \<open>enabled\<close> flag of a local track and the button text.
\<close>

datatype client_event =
    EvPeerJoined sid
  | EvSignal sid sig_data
  | EvPeerLeft sid
  | EvTrack sid "stream option"
  | EvIceCandidate sid "string option"
  | EvJoinClick string

fun client_step :: "browser \<Rightarrow> client \<Rightarrow> client_event \<Rightarrow> client \<times> client_effect list" where
  "client_step env st (EvPeerJoined p) = (let (st', l, r) = client_on_peer_joined env st p in (st', l))"
| "client_step env st (EvSignal p d) = (let (st', l, r) = client_on_signal env st p d in (st', l))"
| "client_step env st (EvPeerLeft p) = client_on_peer_left st p"
| "client_step env st (EvTrack p s) = pc_track_event st p s"
| "client_step env st (EvIceCandidate p c) = pc_icecandidate_event st p c"
| "client_step env st (EvJoinClick v) = (let (st', l, r) = on_join_click env st v in (st', l))"

text \<open>A run: each event comes with the browser outcomes in force when it is handled.\<close>

fun client_run :: "client \<Rightarrow> (browser \<times> client_event) list \<Rightarrow> client \<times> client_effect list" where
  "client_run st [] = (st, [])"
| "client_run st ((env, ev) # evs) =
     (let (st1, l1) = client_step env st ev;
          (st2, l2) = client_run st1 evs
      in (st2, l1 @ l2))"

subsection \<open>A browser in which every primitive succeeds\<close>

text \<open>
  Used for concrete runs: the camera yields two tracks, and every description or
  candidate is accepted.
\<close>

definition ok_browser :: browser where
  "ok_browser = \<lparr>getUserMedia = Some [''video0'', ''audio0''],
     createOffer = (\<lambda>pc. Some ''v=0 offer''),
     createAnswer = (\<lambda>pc. Some ''v=0 answer''),
     setLocalDescription = (\<lambda>pc d. True),
     setRemoteDescription = (\<lambda>pc d. True),
     addIceCandidate = (\<lambda>pc c. True)\<rparr>"

text \<open>A browser that rejects every remote candidate, and is \<open>ok_browser\<close> otherwise.\<close>

definition strict_browser :: browser where
  "strict_browser = ok_browser\<lparr>addIceCandidate := (\<lambda>pc c. False)\<rparr>"

text \<open>A browser that rejects one remote description as unparsable, and is \<open>ok_browser\<close> otherwise.\<close>

definition picky_browser :: browser where
  "picky_browser =
     ok_browser\<lparr>setRemoteDescription := (\<lambda>pc d. desc_sdp d \<noteq> Some ''not an sdp'')\<rparr>"

subsection \<open>Predicates used in the statements\<close>

text \<open>
  \<open>bare st p\<close>: a connection is registered for \<open>p\<close> that carries no local track and has
  neither listener installed, which is how \<open>createPeerConnection\<close> leaves a connection it
  builds while \<open>localStream\<close> is null.
\<close>

definition bare :: "client \<Rightarrow> sid \<Rightarrow> bool" where
  "bare st p =
     (case peerConnections st p of
        None \<Rightarrow> False
      | Some pc \<Rightarrow> pc_tracks pc = [] \<and> \<not> track_listener pc \<and> \<not> icecandidate_listener pc)"

text \<open>The effects that touch peer \<open>p\<close>'s media: a video element, a track, or a candidate envelope.\<close>

fun media_effect :: "sid \<Rightarrow> client_effect \<Rightarrow> bool" where
  "media_effect p (CreateVideo q) = (q = p)"
| "media_effect p (AddTrack q t) = (q = p)"
| "media_effect p (SockEmitSignal rm d) = (sig_type d = ''candidate'' \<and> sig_to d = Some p)"
| "media_effect p e = False"

text \<open>\<open>registered st p\<close> is 1 when the registry holds a connection for \<open>p\<close> and 0 otherwise.\<close>

definition registered :: "client \<Rightarrow> sid \<Rightarrow> nat" where
  "registered st p = (if peerConnections st p = None then 0 else 1)"

section \<open>Properties of the ICE endpoint\<close>

lemma fallback_servers_length: "length fallback_servers = 5"
  by (simp add: fallback_servers_def)

text \<open>
  Claim C9. The response of GET /ice.json always carries a non-empty \<open>iceServers\<close> array,
  and when neither a STUN URL nor a complete TURN triple is configured it is the hardcoded
  list of five servers.
\<close>

theorem ice_json_nonempty:
  "iceServers (ice_json env) \<noteq> [] \<and>
   (\<not> truthy (STUN_URL env) \<and>
    \<not> (truthy (TURN_URL env) \<and> truthy (TURN_USERNAME env) \<and> truthy (TURN_PASSWORD env))
    \<longrightarrow> iceServers (ice_json env) = fallback_servers)"
  by (simp add: ice_json_def Let_def fallback_servers_def)

theorem ice_json_nonempty_witness:
  "iceServers (ice_json \<lparr>STUN_URL = None, TURN_URL = Some ''turn:localhost:3478'',
      TURN_USERNAME = None, TURN_PASSWORD = Some ''''\<rparr>) = fallback_servers
   \<and> length fallback_servers = 5"
  using ice_json_nonempty [of "\<lparr>STUN_URL = None, TURN_URL = Some ''turn:localhost:3478'',
      TURN_USERNAME = None, TURN_PASSWORD = Some ''''\<rparr>"]
  by (simp add: fallback_servers_length)

section \<open>Properties of the signalling server\<close>

subsection \<open>Sets as lists, and the effects of a join\<close>

lemma announces_eq:
  "concat (map (\<lambda>x. if x \<noteq> c then socket_emit c (PeerJoined x) else []) xs)
     = map (\<lambda>m. Emit c (PeerJoined m)) (filter (\<lambda>m. m \<noteq> c) xs)"
  by (induction xs) (auto simp: socket_emit_def)

lemma filter_set_add_excluded:
  "c \<in> E \<Longrightarrow> filter (\<lambda>x. x \<notin> E) (set_add xs c) = filter (\<lambda>x. x \<notin> E) xs"
  by (simp add: set_add_def)

lemma set_add_member: "x \<in> set xs \<Longrightarrow> set_add xs x = xs"
  by (simp add: set_add_def)

lemma distinct_set_add: "distinct xs \<Longrightarrow> distinct (set_add xs x)"
  by (simp add: set_add_def)

lemma set_set_add: "set (set_add xs x) = insert x (set xs)"
  by (auto simp: set_add_def)

text \<open>
  The effects of a join by a connected socket \<open>c\<close>, which is in the room named \<open>c\<close>: the
  membership update does not change that room, and \<open>c\<close> is among the sockets the notice
  leaves out.
\<close>

lemma on_join_effects:
  assumes conn: "c \<in> set (rooms st c)"
  shows "snd (on_join st c r) =
     map (\<lambda>m. Emit c (PeerJoined m)) (filter (\<lambda>m. m \<noteq> c) (rooms st r))
     @ [JoinRoom c r]
     @ map (\<lambda>m. Emit m (PeerJoined c)) (filter (\<lambda>m. m \<notin> set (rooms st c)) (rooms st r))"
proof -
  have own: "rooms (socket_join st c r) c = rooms st c"
    using conn by (auto simp: socket_join_def set_add_member)
  have room: "rooms (socket_join st c r) r = set_add (rooms st r) c"
    by (simp add: socket_join_def)
  have "socket_to_emit (socket_join st c r) c r (PeerJoined c)
          = map (\<lambda>m. Emit m (PeerJoined c)) (filter (\<lambda>m. m \<notin> set (rooms st c)) (rooms st r))"
    unfolding socket_to_emit_def own room
    using filter_set_add_excluded [OF conn] by simp
  then show ?thesis
    by (simp add: on_join_def Let_def announces_eq)
qed

lemma on_join_state: "fst (on_join st c r) = socket_join st c r"
  by (simp add: on_join_def Let_def)

subsection \<open>Every reachable adapter state is well formed\<close>

text \<open>
  The member lists hold no duplicates, and the two tables of the adapter agree: a socket
  is listed in a room exactly when the room is listed for the socket.
\<close>

lemma socket_join_inv:
  assumes "\<forall>r. distinct (rooms st r)" "\<forall>s. distinct (sids st s)"
    "\<forall>s r. (r \<in> set (sids st s)) = (s \<in> set (rooms st r))"
  shows "(\<forall>r. distinct (rooms (socket_join st c q) r)) \<and> (\<forall>s. distinct (sids (socket_join st c q) s))
    \<and> (\<forall>s r. (r \<in> set (sids (socket_join st c q) s)) = (s \<in> set (rooms (socket_join st c q) r)))"
  using assms by (auto simp: socket_join_def distinct_set_add set_set_add)

lemma leave_all_inv:
  assumes "\<forall>r. distinct (rooms st r)" "\<forall>s. distinct (sids st s)"
    "\<forall>s r. (r \<in> set (sids st s)) = (s \<in> set (rooms st r))"
  shows "(\<forall>r. distinct (rooms (leave_all st c) r)) \<and> (\<forall>s. distinct (sids (leave_all st c) s))
    \<and> (\<forall>s r. (r \<in> set (sids (leave_all st c) s)) = (s \<in> set (rooms (leave_all st c) r)))"
  using assms by (auto simp: leave_all_def distinct_removeAll)

lemma server_step_inv:
  assumes "\<forall>r. distinct (rooms st r)" "\<forall>s. distinct (sids st s)"
    "\<forall>s r. (r \<in> set (sids st s)) = (s \<in> set (rooms st r))"
  shows "(\<forall>r. distinct (rooms (fst (server_step st ev)) r))
    \<and> (\<forall>s. distinct (sids (fst (server_step st ev)) s))
    \<and> (\<forall>s r. (r \<in> set (sids (fst (server_step st ev)) s)) = (s \<in> set (rooms (fst (server_step st ev)) r)))"
proof (cases ev)
  case (Connect s)
  then show ?thesis using socket_join_inv [OF assms] by (simp add: connect_def)
next
  case (Join s r)
  then show ?thesis using socket_join_inv [OF assms] by (simp add: on_join_state)
next
  case (SignalMsg s r d)
  then show ?thesis using assms by simp
next
  case (Disconnect s)
  then show ?thesis using leave_all_inv [OF assms] by (simp add: disconnect_def)
qed

lemma server_run_inv:
  assumes "\<forall>r. distinct (rooms st r)" "\<forall>s. distinct (sids st s)"
    "\<forall>s r. (r \<in> set (sids st s)) = (s \<in> set (rooms st r))"
  shows "(\<forall>r. distinct (rooms (fst (server_run st evs)) r))
    \<and> (\<forall>s. distinct (sids (fst (server_run st evs)) s))
    \<and> (\<forall>s r. (r \<in> set (sids (fst (server_run st evs)) s)) = (s \<in> set (rooms (fst (server_run st evs)) r)))"
  using assms
proof (induction evs arbitrary: st)
  case Nil
  then show ?case by simp
next
  case (Cons ev evs)
  have "fst (server_run st (ev # evs)) = fst (server_run (fst (server_step st ev)) evs)"
    by (simp add: case_prod_beta Let_def)
  then show ?case
    using Cons.IH server_step_inv [OF Cons.prems, of ev] by presburger
qed

lemma reachable_inv:
  "(\<forall>r. distinct (rooms (fst (server_run init_adapter evs)) r))
    \<and> (\<forall>s. distinct (sids (fst (server_run init_adapter evs)) s))
    \<and> (\<forall>s r. (r \<in> set (sids (fst (server_run init_adapter evs)) s))
          = (s \<in> set (rooms (fst (server_run init_adapter evs)) r)))"
  by (rule server_run_inv) (simp_all add: init_adapter_def)

subsection \<open>Counting deliveries\<close>

lemma count_list_distinct: "distinct xs \<Longrightarrow> count_list xs x = (if x \<in> set xs then 1 else 0)"
  by (induction xs) auto

lemma count_list_map_inj: "inj f \<Longrightarrow> count_list (map f xs) (f x) = count_list xs x"
  by (induction xs) (auto dest: injD)







lemma on_join_counts:
  assumes d: "distinct (rooms st r)" and conn: "c \<in> set (rooms st c)"
  shows "count_list (snd (on_join st c r)) (Emit c (PeerJoined m))
           = (if m \<in> set (rooms st r) \<and> m \<noteq> c then 1 else 0)"
    and "m \<noteq> c \<Longrightarrow> count_list (snd (on_join st c r)) (Emit m (PeerJoined c))
           = (if m \<in> set (rooms st r) \<and> m \<notin> set (rooms st c) then 1 else 0)"
proof -
  let ?old = "filter (\<lambda>m. m \<noteq> c) (rooms st r)"
  let ?heard = "filter (\<lambda>m. m \<notin> set (rooms st c)) (rooms st r)"
  have dold: "distinct ?old" and dheard: "distinct ?heard"
    using d by simp_all
  have i1: "inj (\<lambda>m. Emit c (PeerJoined m))" and i2: "inj (\<lambda>m. Emit m (PeerJoined c))"
    by (simp_all add: inj_def)
  have a1: "count_list (map (\<lambda>m. Emit c (PeerJoined m)) ?old) (Emit c (PeerJoined m)) = count_list ?old m"
    using count_list_map_inj [OF i1, of ?old m] by simp
  have "Emit c (PeerJoined m) \<notin> set (map (\<lambda>m. Emit m (PeerJoined c)) ?heard)"
    using conn by auto
  then have b1: "count_list (map (\<lambda>m. Emit m (PeerJoined c)) ?heard) (Emit c (PeerJoined m)) = 0"
    by (rule count_notin)
  show "count_list (snd (on_join st c r)) (Emit c (PeerJoined m))
           = (if m \<in> set (rooms st r) \<and> m \<noteq> c then 1 else 0)"
    using a1 b1 count_list_distinct [OF dold, of m] by (simp add: on_join_effects [OF conn])
  assume ne: "m \<noteq> c"
  have a2: "count_list (map (\<lambda>m. Emit m (PeerJoined c)) ?heard) (Emit m (PeerJoined c)) = count_list ?heard m"
    using count_list_map_inj [OF i2, of ?heard m] by simp
  have "Emit m (PeerJoined c) \<notin> set (map (\<lambda>m. Emit c (PeerJoined m)) ?old)"
    using ne by auto
  then have b2: "count_list (map (\<lambda>m. Emit c (PeerJoined m)) ?old) (Emit m (PeerJoined c)) = 0"
    by (rule count_notin)
  show "count_list (snd (on_join st c r)) (Emit m (PeerJoined c))
           = (if m \<in> set (rooms st r) \<and> m \<notin> set (rooms st c) then 1 else 0)"
    using a2 b2 count_list_distinct [OF dheard, of m] ne by (simp add: on_join_effects [OF conn])
qed

subsection \<open>Join\<close>




subsection \<open>Relay\<close>




subsection \<open>Departure\<close>





section \<open>Properties of the browser client\<close>

subsection \<open>The registry and the handlers\<close>

lemma createPeerConnection_registered:
  "peerConnections (fst (createPeerConnection st p)) p \<noteq> None"
  by (simp add: createPeerConnection_def Let_def split: option.splits)

lemma createPeerConnection_existing:
  "peerConnections st p = Some pc \<Longrightarrow> createPeerConnection st p = (st, [])"
  by (simp add: createPeerConnection_def)

lemma createPeerConnection_fresh:
  assumes "peerConnections st p = None"
  shows "createPeerConnection st p =
     (st\<lparr>peerConnections := (peerConnections st)(p \<mapsto> (new_pc (client_iceServers st))
            \<lparr>pc_tracks := (case localStream st of None \<Rightarrow> [] | Some ls \<Rightarrow> ls),
             track_listener := (localStream st \<noteq> None),
             icecandidate_listener := (localStream st \<noteq> None)\<rparr>)\<rparr>,
      NewPC p # map (AddTrack p) (case localStream st of None \<Rightarrow> [] | Some ls \<Rightarrow> ls))"
  using assms by (simp add: createPeerConnection_def Let_def new_pc_def split: option.splits)

lemma count_list_AddTrack:
  "count_list (map (AddTrack p) ts) (NewPC q) = 0"
  "count_list (map (AddTrack p) ts) (ClosePC q) = 0"
  by (induction ts) auto

text \<open>
  Claim C5. When no connection is registered for the sender, an \<open>answer\<close> and a
  \<open>candidate\<close> envelope each leave the whole client state as it was, call nothing and
  create no connection. When a connection is registered and the browser rejects the
  candidate, \<open>handleCandidate\<close> still returns normally, with the state unchanged: the
  connection stays registered and is not closed.
\<close>

theorem stale_signals_noop:
  "(peerConnections st p = None \<longrightarrow>
       handleAnswer env st p sdp = (st, [], Resolved)
     \<and> handleCandidate env st p cand = (st, [], Resolved)
     \<and> (sig_type d = ''answer'' \<or> sig_type d = ''candidate''
          \<longrightarrow> client_on_signal env st p d = (st, [], Resolved)))
   \<and> (\<forall>pc. peerConnections st p = Some pc \<and> \<not> addIceCandidate env pc cand \<longrightarrow>
         handleCandidate env st p cand = (st, [AddIceCandidate p cand], Resolved))"
  by (auto simp: handleAnswer_def handleCandidate_def client_on_signal_def)

theorem stale_signals_noop_witness:
  "handleAnswer ok_browser init_client ''Z'' (Some ''v=0 answer'') = (init_client, [], Resolved)
   \<and> handleCandidate ok_browser init_client ''Z'' (Some ''candidate:1'') = (init_client, [], Resolved)
   \<and> handleCandidate strict_browser (fst (createPeerConnection init_client ''B'')) ''B''
         (Some ''candidate:1'')
       = (fst (createPeerConnection init_client ''B''),
          [AddIceCandidate ''B'' (Some ''candidate:1'')], Resolved)"
proof -
  define cl where "cl = fst (createPeerConnection init_client ''B'')"
  have n: "peerConnections init_client ''Z'' = None"
    by (simp add: init_client_def)
  have s: "peerConnections cl ''B'' = Some (new_pc [])"
    unfolding cl_def by (simp add: createPeerConnection_def init_client_def Let_def)
  have f: "\<not> addIceCandidate strict_browser (new_pc []) (Some ''candidate:1'')"
    by (simp add: strict_browser_def)
  have a: "handleAnswer ok_browser init_client ''Z'' (Some ''v=0 answer'') = (init_client, [], Resolved)"
    and b: "handleCandidate ok_browser init_client ''Z'' (Some ''candidate:1'') = (init_client, [], Resolved)"
    using stale_signals_noop [of init_client "''Z''" ok_browser "Some ''v=0 answer''"
        "Some ''candidate:1''"] n by blast+
  have c: "handleCandidate strict_browser cl ''B'' (Some ''candidate:1'')
       = (cl, [AddIceCandidate ''B'' (Some ''candidate:1'')], Resolved)"
    using stale_signals_noop [of cl "''B''" strict_browser _ "Some ''candidate:1''"] s f by blast
  show ?thesis
    using a b c unfolding cl_def by simp
qed

text \<open>
  Claim C6. After one \<open>peer-left\<close> for \<open>p\<close>, neither map holds an entry for \<open>p\<close>, and a
  second \<open>peer-left\<close> for \<open>p\<close> changes nothing and calls nothing.
\<close>

theorem peer_left_idempotent:
  "client_on_peer_left (fst (client_on_peer_left st p)) p = (fst (client_on_peer_left st p), [])
   \<and> peerConnections (fst (client_on_peer_left st p)) p = None
   \<and> remoteVideos (fst (client_on_peer_left st p)) p = None"
  by (simp add: client_on_peer_left_def split: option.splits)

theorem peer_left_idempotent_witness:
  "client_on_peer_left (fst (client_on_peer_left (fst (createPeerConnection init_client ''B'')) ''B'')) ''B''
     = (fst (client_on_peer_left (fst (createPeerConnection init_client ''B'')) ''B''), [])
   \<and> snd (client_on_peer_left (fst (createPeerConnection init_client ''B'')) ''B'') = [ClosePC ''B'']"
proof -
  have "snd (client_on_peer_left (fst (createPeerConnection init_client ''B'')) ''B'') = [ClosePC ''B'']"
    by (simp add: client_on_peer_left_def createPeerConnection_def init_client_def Let_def)
  then show ?thesis
    using peer_left_idempotent [of "fst (createPeerConnection init_client ''B'')" "''B''"] by simp
qed

text \<open>
  Claim C8, as amended. On an \<open>offer\<close> from \<open>p\<close> for which the browser accepts the remote
  description, creates an answer and accepts it as the local description, \<open>handleOffer\<close>
  gets or creates the connection for \<open>p\<close>, then calls \<open>setRemoteDescription\<close>,
  \<open>createAnswer\<close> and \<open>setLocalDescription\<close> in this order, and last emits one \<open>answer\<close>
  envelope whose \<open>to\<close> is \<open>p\<close>; it emits no other envelope.
\<close>

theorem offer_handling:
  assumes cpc: "createPeerConnection st p = (st1, l1)"
    and pc: "peerConnections st1 p = Some pc"
    and remote: "remote = \<lparr>desc_type = ''offer'', desc_sdp = sdp\<rparr>"
    and sr: "setRemoteDescription env pc remote"
    and ca: "createAnswer env (pc\<lparr>remoteDescription := Some remote\<rparr>) = Some a"
    and answer: "answer = \<lparr>desc_type = ''answer'', desc_sdp = Some a\<rparr>"
    and sl: "setLocalDescription env (pc\<lparr>remoteDescription := Some remote\<rparr>) answer"
  shows "handleOffer env st p sdp =
      (st1\<lparr>peerConnections := (peerConnections st1)
             (p \<mapsto> pc\<lparr>remoteDescription := Some remote, localDescription := Some answer\<rparr>)\<rparr>,
       l1 @ [SetRemoteDescription p remote, CreateAnswer p, SetLocalDescription p answer,
             SockEmitSignal (roomId st)
               \<lparr>sig_type = ''answer'', sig_sdp = Some a, sig_candidate = None, sig_to = Some p\<rparr>],
       Resolved)
    \<and> (\<forall>rm dt. SockEmitSignal rm dt \<notin> set l1)
    \<and> (peerConnections st p \<noteq> None \<longrightarrow> l1 = [] \<and> st1 = st)
    \<and> (peerConnections st p = None \<longrightarrow> count_list l1 (NewPC p) = 1)"
proof -
  have rid: "roomId st1 = roomId st"
    using cpc by (auto simp: createPeerConnection_def Let_def split: option.splits)
  have h: "handleOffer env st p sdp =
      (st1\<lparr>peerConnections := (peerConnections st1)
             (p \<mapsto> pc\<lparr>remoteDescription := Some remote, localDescription := Some answer\<rparr>)\<rparr>,
       l1 @ [SetRemoteDescription p remote, CreateAnswer p, SetLocalDescription p answer,
             SockEmitSignal (roomId st)
               \<lparr>sig_type = ''answer'', sig_sdp = Some a, sig_candidate = None, sig_to = Some p\<rparr>],
       Resolved)"
    using sr ca sl
    by (simp add: handleOffer_def cpc pc Let_def remote [symmetric] answer [symmetric] rid)
  have n: "SockEmitSignal rm dt \<notin> set l1" for rm dt
    using cpc by (auto simp: createPeerConnection_def Let_def split: option.splits)
  have e: "l1 = [] \<and> st1 = st" if "peerConnections st p \<noteq> None"
    using cpc that by (auto simp: createPeerConnection_def)
  have f: "count_list l1 (NewPC p) = 1" if "peerConnections st p = None"
    using cpc createPeerConnection_fresh [OF that] by (auto simp: count_list_AddTrack)
  show ?thesis
    using h n e f by blast
qed

theorem offer_handling_witness:
  "snd (handleOffer ok_browser
          (fst (client_run init_client [(ok_browser, EvJoinClick ''r1'')])) ''A'' (Some ''v=0 offer''))
     = ([NewPC ''A'', AddTrack ''A'' ''video0'', AddTrack ''A'' ''audio0'',
         SetRemoteDescription ''A'' \<lparr>desc_type = ''offer'', desc_sdp = Some ''v=0 offer''\<rparr>,
         CreateAnswer ''A'',
         SetLocalDescription ''A'' \<lparr>desc_type = ''answer'', desc_sdp = Some ''v=0 answer''\<rparr>,
         SockEmitSignal (Some ''r1'')
           \<lparr>sig_type = ''answer'', sig_sdp = Some ''v=0 answer'', sig_candidate = None,
            sig_to = Some ''A''\<rparr>],
        Resolved)"
proof -
  define cl where "cl = fst (client_run init_client [(ok_browser, EvJoinClick ''r1'')])"
  define pc where "pc = (new_pc [])\<lparr>pc_tracks := [''video0'', ''audio0''], track_listener := True,
      icecandidate_listener := True\<rparr>"
  define remote where "remote = \<lparr>desc_type = ''offer'', desc_sdp = Some ''v=0 offer''\<rparr>"
  define answer where "answer = \<lparr>desc_type = ''answer'', desc_sdp = Some ''v=0 answer''\<rparr>"
  have r: "roomId cl = Some ''r1''" and ls: "localStream cl = Some [''video0'', ''audio0'']"
    and n: "peerConnections cl ''A'' = None" and i: "client_iceServers cl = []"
    unfolding cl_def by (simp_all add: on_join_click_def init_client_def ok_browser_def Let_def)
  have l1: "snd (createPeerConnection cl ''A'')
          = [NewPC ''A'', AddTrack ''A'' ''video0'', AddTrack ''A'' ''audio0'']"
    and p: "peerConnections (fst (createPeerConnection cl ''A'')) ''A'' = Some pc"
    using createPeerConnection_fresh [OF n] by (simp_all add: ls i pc_def)
  have sr: "setRemoteDescription ok_browser pc remote"
    and ca: "createAnswer ok_browser (pc\<lparr>remoteDescription := Some remote\<rparr>) = Some ''v=0 answer''"
    and sl: "setLocalDescription ok_browser (pc\<lparr>remoteDescription := Some remote\<rparr>) answer"
    by (simp_all add: ok_browser_def)
  have "snd (handleOffer ok_browser cl ''A'' (Some ''v=0 offer''))
     = (snd (createPeerConnection cl ''A'')
          @ [SetRemoteDescription ''A'' remote, CreateAnswer ''A'', SetLocalDescription ''A'' answer,
             SockEmitSignal (roomId cl)
               \<lparr>sig_type = ''answer'', sig_sdp = Some ''v=0 answer'', sig_candidate = None,
                sig_to = Some ''A''\<rparr>],
        Resolved)"
    using offer_handling [OF prod.collapse [symmetric] p remote_def sr ca answer_def sl] by simp
  then have "snd (handleOffer ok_browser cl ''A'' (Some ''v=0 offer''))
     = ([NewPC ''A'', AddTrack ''A'' ''video0'', AddTrack ''A'' ''audio0'',
         SetRemoteDescription ''A'' \<lparr>desc_type = ''offer'', desc_sdp = Some ''v=0 offer''\<rparr>,
         CreateAnswer ''A'',
         SetLocalDescription ''A'' \<lparr>desc_type = ''answer'', desc_sdp = Some ''v=0 answer''\<rparr>,
         SockEmitSignal (Some ''r1'')
           \<lparr>sig_type = ''answer'', sig_sdp = Some ''v=0 answer'', sig_candidate = None,
            sig_to = Some ''A''\<rparr>],
        Resolved)"
    by (simp add: l1 r remote_def answer_def)
  then show ?thesis
    unfolding cl_def .
qed

text \<open>
  When the browser rejects the remote description the handler stops there: nothing is
  emitted, and the connection it may have created stays registered.
\<close>

lemma handleOffer_rejected:
  assumes cpc: "createPeerConnection st p = (st1, l1)"
    and pc: "peerConnections st1 p = Some pc"
    and sr: "\<not> setRemoteDescription env pc \<lparr>desc_type = ''offer'', desc_sdp = sdp\<rparr>"
  shows "handleOffer env st p sdp =
           (st1, l1 @ [SetRemoteDescription p \<lparr>desc_type = ''offer'', desc_sdp = sdp\<rparr>], Rejected)"
  using sr by (simp add: handleOffer_def cpc pc Let_def)

text \<open>
  Claim C8 as stated fails. For an \<open>offer\<close> whose SDP the browser rejects, the client
  creates and registers the connection for the sender, calls \<open>setRemoteDescription\<close>, and
  stops: no \<open>answer\<close> envelope is sent.
\<close>

theorem offer_rejected_counterexample:
  "snd (handleOffer picky_browser
          (fst (client_run init_client [(picky_browser, EvJoinClick ''r1'')])) ''A''
          (Some ''not an sdp''))
     = ([NewPC ''A'', AddTrack ''A'' ''video0'', AddTrack ''A'' ''audio0'',
         SetRemoteDescription ''A'' \<lparr>desc_type = ''offer'', desc_sdp = Some ''not an sdp''\<rparr>],
        Rejected)"
  by code_simp

subsection \<open>Connections constructed and connections closed\<close>

lemma createPeerConnection_balance:
  assumes "createPeerConnection st p = (st1, l1)"
  shows "count_list l1 (NewPC q) + registered st q = registered st1 q
       \<and> count_list l1 (ClosePC q) = 0"
  using assms
  by (auto simp: createPeerConnection_def Let_def registered_def count_list_AddTrack
      split: option.splits if_splits)

lemma makeCall_shape:
  assumes "makeCall env st p = (st', l, res)"
  shows "\<exists>st1 l1 l2. createPeerConnection st p = (st1, l1) \<and> l = l1 @ l2
           \<and> (\<forall>q. NewPC q \<notin> set l2 \<and> ClosePC q \<notin> set l2)
           \<and> (\<forall>q. registered st' q = registered st1 q)"
proof -
  obtain st1 l1 where c: "createPeerConnection st p = (st1, l1)"
    by (cases "createPeerConnection st p")
  have r: "peerConnections st1 p \<noteq> None"
    using createPeerConnection_registered [of st p] c by simp
  show ?thesis
    using assms r
    by (auto simp: makeCall_def c Let_def registered_def split: option.splits if_splits)
qed

lemma handleOffer_shape:
  assumes "handleOffer env st p sdp = (st', l, res)"
  shows "\<exists>st1 l1 l2. createPeerConnection st p = (st1, l1) \<and> l = l1 @ l2
           \<and> (\<forall>q. NewPC q \<notin> set l2 \<and> ClosePC q \<notin> set l2)
           \<and> (\<forall>q. registered st' q = registered st1 q)"
proof -
  obtain st1 l1 where c: "createPeerConnection st p = (st1, l1)"
    by (cases "createPeerConnection st p")
  have r: "peerConnections st1 p \<noteq> None"
    using createPeerConnection_registered [of st p] c by simp
  show ?thesis
    using assms r
    by (auto simp: handleOffer_def c Let_def registered_def split: option.splits if_splits)
qed

lemma balance_from_shape:
  assumes "createPeerConnection st p = (st1, l1)" "l = l1 @ l2"
    "\<forall>q. NewPC q \<notin> set l2 \<and> ClosePC q \<notin> set l2"
    "\<forall>q. registered st' q = registered st1 q"
  shows "count_list l (NewPC q) + registered st q = count_list l (ClosePC q) + registered st' q"
  using assms createPeerConnection_balance [OF assms(1), of q]
  by (simp add: count_notin)

lemma handleAnswer_balance:
  assumes "handleAnswer env st p sdp = (st', l, res)"
  shows "count_list l (NewPC q) + registered st q = count_list l (ClosePC q) + registered st' q"
  using assms
  by (auto simp: handleAnswer_def Let_def registered_def split: option.splits if_splits)

lemma handleCandidate_balance:
  assumes "handleCandidate env st p c = (st', l, res)"
  shows "count_list l (NewPC q) + registered st q = count_list l (ClosePC q) + registered st' q"
  using assms
  by (auto simp: handleCandidate_def Let_def registered_def split: option.splits if_splits)

lemma client_on_peer_left_balance:
  assumes "client_on_peer_left st p = (st', l)"
  shows "count_list l (NewPC q) + registered st q = count_list l (ClosePC q) + registered st' q"
  using assms
  by (auto simp: client_on_peer_left_def Let_def registered_def split: option.splits if_splits)

lemma pc_events_balance:
  "pc_track_event st p s = (st', l) \<Longrightarrow>
     count_list l (NewPC q) + registered st q = count_list l (ClosePC q) + registered st' q"
  "pc_icecandidate_event st p c = (st', l) \<Longrightarrow>
     count_list l (NewPC q) + registered st q = count_list l (ClosePC q) + registered st' q"
  by (auto simp: pc_track_event_def pc_icecandidate_event_def track_handler_def
      icecandidate_handler_def Let_def registered_def split: option.splits if_splits)

lemma on_join_click_balance:
  assumes "on_join_click env st v = (st', l, res)"
  shows "count_list l (NewPC q) + registered st q = count_list l (ClosePC q) + registered st' q"
  using assms
  by (auto simp: on_join_click_def Let_def registered_def split: option.splits if_splits)

lemma client_step_balance:
  assumes "client_step env st ev = (st', l)"
  shows "count_list l (NewPC q) + registered st q = count_list l (ClosePC q) + registered st' q"
proof (cases ev)
  case (EvPeerJoined p)
  obtain res where "makeCall env st p = (st', l, res)"
    using assms EvPeerJoined
    by (cases "makeCall env st p") (simp add: client_on_peer_joined_def)
  from makeCall_shape [OF this] show ?thesis
    using balance_from_shape by blast
next
  case (EvSignal p d)
  obtain res where s: "client_on_signal env st p d = (st', l, res)"
    using assms EvSignal by (cases "client_on_signal env st p d") simp
  consider (o) "sig_type d = ''offer''" | (a) "sig_type d \<noteq> ''offer''" "sig_type d = ''answer''"
    | (c) "sig_type d \<noteq> ''offer''" "sig_type d \<noteq> ''answer''" "sig_type d = ''candidate''"
    | (n) "sig_type d \<noteq> ''offer''" "sig_type d \<noteq> ''answer''" "sig_type d \<noteq> ''candidate''"
    by blast
  then show ?thesis
  proof cases
    case o
    then have "handleOffer env st p (sig_sdp d) = (st', l, res)"
      using s by (simp add: client_on_signal_def)
    from handleOffer_shape [OF this] show ?thesis
      using balance_from_shape by blast
  next
    case a
    then have "handleAnswer env st p (sig_sdp d) = (st', l, res)"
      using s by (simp add: client_on_signal_def)
    then show ?thesis by (rule handleAnswer_balance)
  next
    case c
    then have "handleCandidate env st p (sig_candidate d) = (st', l, res)"
      using s by (simp add: client_on_signal_def)
    then show ?thesis by (rule handleCandidate_balance)
  next
    case n
    then show ?thesis
      using s by (simp add: client_on_signal_def)
  qed
next
  case (EvPeerLeft p)
  then show ?thesis
    using assms client_on_peer_left_balance by simp
next
  case (EvTrack p s)
  then show ?thesis
    using assms pc_events_balance(1) by simp
next
  case (EvIceCandidate p c)
  then show ?thesis
    using assms pc_events_balance(2) by simp
next
  case (EvJoinClick v)
  obtain res where "on_join_click env st v = (st', l, res)"
    using assms EvJoinClick by (cases "on_join_click env st v") simp
  then show ?thesis by (rule on_join_click_balance)
qed

lemma client_run_balance:
  "client_run st evs = (st', l) \<Longrightarrow>
     count_list l (NewPC q) + registered st q = count_list l (ClosePC q) + registered st' q"
proof (induction evs arbitrary: st st' l)
  case Nil
  then show ?case by simp
next
  case (Cons a evs)
  obtain env ev where a: "a = (env, ev)"
    by (cases a)
  obtain st1 l1 where s: "client_step env st ev = (st1, l1)"
    by (cases "client_step env st ev")
  obtain st2 l2 where r: "client_run st1 evs = (st2, l2)"
    by (cases "client_run st1 evs")
  have e: "st' = st2" "l = l1 @ l2"
    using Cons.prems a s r by simp_all
  show ?case
    using client_step_balance [OF s, of q] Cons.IH [OF r] e by simp
qed

text \<open>
  Claim C7. \<open>createPeerConnection\<close> returns the registered connection, constructing
  nothing, when there is one; otherwise it constructs exactly one connection, registers it
  and adds every track of the local stream to it (none when there is no stream). Hence, in
  every run of the client from its initial state, the connections constructed for a peer
  and not yet closed number one when the registry holds an entry for the peer and zero
  when it does not.
\<close>

theorem registry_uniqueness:
  "(\<forall>pc. peerConnections st p = Some pc \<longrightarrow> createPeerConnection st p = (st, []))
   \<and> (peerConnections st p = None \<longrightarrow>
         createPeerConnection st p =
           (st\<lparr>peerConnections := (peerConnections st)(p \<mapsto> (new_pc (client_iceServers st))
                  \<lparr>pc_tracks := (case localStream st of None \<Rightarrow> [] | Some ls \<Rightarrow> ls),
                   track_listener := (localStream st \<noteq> None),
                   icecandidate_listener := (localStream st \<noteq> None)\<rparr>)\<rparr>,
            NewPC p # map (AddTrack p) (case localStream st of None \<Rightarrow> [] | Some ls \<Rightarrow> ls))
       \<and> (\<forall>q. count_list (snd (createPeerConnection st p)) (NewPC q) = (if q = p then 1 else 0)))
   \<and> (\<forall>evs q. count_list (snd (client_run init_client evs)) (NewPC q)
          = count_list (snd (client_run init_client evs)) (ClosePC q)
            + registered (fst (client_run init_client evs)) q
        \<and> registered (fst (client_run init_client evs)) q \<le> 1)"
proof -
  have a: "createPeerConnection st p = (st, [])" if "peerConnections st p = Some pc" for pc
    using that by (rule createPeerConnection_existing)
  have b: "count_list (snd (createPeerConnection st p)) (NewPC q) = (if q = p then 1 else 0)"
    if "peerConnections st p = None" for q
    using createPeerConnection_fresh [OF that] by (simp add: count_list_AddTrack)
  have c: "count_list (snd (client_run init_client evs)) (NewPC q)
          = count_list (snd (client_run init_client evs)) (ClosePC q)
            + registered (fst (client_run init_client evs)) q" for evs q
    using client_run_balance [of init_client evs "fst (client_run init_client evs)"
        "snd (client_run init_client evs)" q]
    by (simp add: registered_def init_client_def)
  have d: "registered s q \<le> 1" for s q
    by (simp add: registered_def)
  show ?thesis
    using a b c d createPeerConnection_fresh by blast
qed

theorem registry_uniqueness_witness:
  "snd (createPeerConnection init_client ''B'') = [NewPC ''B'']
   \<and> createPeerConnection (fst (createPeerConnection init_client ''B'')) ''B''
       = (fst (createPeerConnection init_client ''B''), [])
   \<and> count_list (snd (client_run init_client
        [(ok_browser, EvPeerJoined ''B''), (ok_browser, EvPeerLeft ''B''),
         (ok_browser, EvPeerJoined ''B'')])) (NewPC ''B'') = 2
   \<and> count_list (snd (client_run init_client
        [(ok_browser, EvPeerJoined ''B''), (ok_browser, EvPeerLeft ''B''),
         (ok_browser, EvPeerJoined ''B'')])) (ClosePC ''B'') = 1"
proof -
  define cl where "cl = fst (createPeerConnection init_client ''B'')"
  define evs where "evs = [(ok_browser, EvPeerJoined ''B''), (ok_browser, EvPeerLeft ''B''),
         (ok_browser, EvPeerJoined ''B'')]"
  have n: "peerConnections init_client ''B'' = None"
    by (simp add: init_client_def)
  have l: "localStream init_client = None"
    by (simp add: init_client_def)
  have s: "peerConnections cl ''B'' = Some (new_pc [])"
    unfolding cl_def by (simp add: createPeerConnection_def init_client_def Let_def)
  have a: "snd (createPeerConnection init_client ''B'') = [NewPC ''B'']"
    using registry_uniqueness [of init_client "''B''"] n l by simp
  have b: "createPeerConnection cl ''B'' = (cl, [])"
    using registry_uniqueness [of cl "''B''"] s by blast
  have c: "count_list (snd (client_run init_client evs)) (ClosePC ''B'') = 1"
    unfolding evs_def by code_simp
  have r: "registered (fst (client_run init_client evs)) ''B'' = 1"
    unfolding evs_def by code_simp
  have "count_list (snd (client_run init_client evs)) (NewPC ''B'')
          = count_list (snd (client_run init_client evs)) (ClosePC ''B'')
            + registered (fst (client_run init_client evs)) ''B''"
    using registry_uniqueness [of init_client "''B''"] by blast
  then have d: "count_list (snd (client_run init_client evs)) (NewPC ''B'') = 2"
    by (simp add: c r)
  show ?thesis
    using a b c d unfolding cl_def evs_def by blast
qed

subsection \<open>A connection built without local media\<close>

lemma createPeerConnection_bare:
  assumes "bare st p" "createPeerConnection st q = (st1, l1)"
  shows "bare st1 p \<and> (\<forall>e \<in> set l1. \<not> media_effect p e) \<and> NewPC p \<notin> set l1
       \<and> remoteVideos st1 p = remoteVideos st p \<and> roomId st1 = roomId st
       \<and> peerConnections st1 q \<noteq> None"
  using assms
  by (auto simp: createPeerConnection_def bare_def Let_def split: option.splits if_splits)

lemma makeCall_bare:
  assumes "bare st p" "makeCall env st q = (st', l, res)"
  shows "bare st' p \<and> (\<forall>e \<in> set l. \<not> media_effect p e) \<and> NewPC p \<notin> set l
       \<and> remoteVideos st' p = remoteVideos st p"
proof -
  obtain st1 l1 where c: "createPeerConnection st q = (st1, l1)"
    by (cases "createPeerConnection st q")
  note b = createPeerConnection_bare [OF assms(1) c]
  show ?thesis
    using assms(2) b
    by (auto simp: makeCall_def c Let_def bare_def split: option.splits if_splits)
qed

lemma handleOffer_bare:
  assumes "bare st p" "handleOffer env st q sdp = (st', l, res)"
  shows "bare st' p \<and> (\<forall>e \<in> set l. \<not> media_effect p e) \<and> NewPC p \<notin> set l
       \<and> remoteVideos st' p = remoteVideos st p"
proof -
  obtain st1 l1 where c: "createPeerConnection st q = (st1, l1)"
    by (cases "createPeerConnection st q")
  note b = createPeerConnection_bare [OF assms(1) c]
  show ?thesis
    using assms(2) b
    by (auto simp: handleOffer_def c Let_def bare_def split: option.splits if_splits)
qed

lemma handleAnswer_bare:
  assumes "bare st p" "handleAnswer env st q sdp = (st', l, res)"
  shows "bare st' p \<and> (\<forall>e \<in> set l. \<not> media_effect p e) \<and> NewPC p \<notin> set l
       \<and> remoteVideos st' p = remoteVideos st p"
  using assms
  by (auto simp: handleAnswer_def Let_def bare_def split: option.splits if_splits)

lemma handleCandidate_bare:
  assumes "bare st p" "handleCandidate env st q c = (st', l, res)"
  shows "bare st' p \<and> (\<forall>e \<in> set l. \<not> media_effect p e) \<and> NewPC p \<notin> set l
       \<and> remoteVideos st' p = remoteVideos st p"
  using assms
  by (auto simp: handleCandidate_def Let_def bare_def split: option.splits if_splits)

lemma client_on_signal_bare:
  assumes "bare st p" "client_on_signal env st q d = (st', l, res)"
  shows "bare st' p \<and> (\<forall>e \<in> set l. \<not> media_effect p e) \<and> NewPC p \<notin> set l
       \<and> remoteVideos st' p = remoteVideos st p"
proof -
  consider (o) "sig_type d = ''offer''" | (a) "sig_type d \<noteq> ''offer''" "sig_type d = ''answer''"
    | (c) "sig_type d \<noteq> ''offer''" "sig_type d \<noteq> ''answer''" "sig_type d = ''candidate''"
    | (n) "sig_type d \<noteq> ''offer''" "sig_type d \<noteq> ''answer''" "sig_type d \<noteq> ''candidate''"
    by blast
  then show ?thesis
  proof cases
    case o
    then have "handleOffer env st q (sig_sdp d) = (st', l, res)"
      using assms(2) by (simp add: client_on_signal_def)
    then show ?thesis by (rule handleOffer_bare [OF assms(1)])
  next
    case a
    then have "handleAnswer env st q (sig_sdp d) = (st', l, res)"
      using assms(2) by (simp add: client_on_signal_def)
    then show ?thesis by (rule handleAnswer_bare [OF assms(1)])
  next
    case c
    then have "handleCandidate env st q (sig_candidate d) = (st', l, res)"
      using assms(2) by (simp add: client_on_signal_def)
    then show ?thesis by (rule handleCandidate_bare [OF assms(1)])
  next
    case n
    then show ?thesis
      using assms by (simp add: client_on_signal_def)
  qed
qed

lemma client_on_peer_left_bare:
  assumes "bare st p" "q \<noteq> p" "client_on_peer_left st q = (st', l)"
  shows "bare st' p \<and> (\<forall>e \<in> set l. \<not> media_effect p e) \<and> NewPC p \<notin> set l
       \<and> remoteVideos st' p = remoteVideos st p"
  using assms
  by (auto simp: client_on_peer_left_def Let_def bare_def split: option.splits if_splits)

lemma pc_track_event_bare:
  assumes "bare st p" "pc_track_event st q s = (st', l)"
  shows "bare st' p \<and> (\<forall>e \<in> set l. \<not> media_effect p e) \<and> NewPC p \<notin> set l
       \<and> remoteVideos st' p = remoteVideos st p"
  using assms
  by (auto simp: pc_track_event_def track_handler_def Let_def bare_def
      split: option.splits if_splits)

lemma pc_icecandidate_event_bare:
  assumes "bare st p" "pc_icecandidate_event st q c = (st', l)"
  shows "bare st' p \<and> (\<forall>e \<in> set l. \<not> media_effect p e) \<and> NewPC p \<notin> set l
       \<and> remoteVideos st' p = remoteVideos st p"
  using assms
  by (auto simp: pc_icecandidate_event_def icecandidate_handler_def Let_def bare_def
      split: option.splits if_splits)

lemma on_join_click_bare:
  assumes "bare st p" "on_join_click env st v = (st', l, res)"
  shows "bare st' p \<and> (\<forall>e \<in> set l. \<not> media_effect p e) \<and> NewPC p \<notin> set l
       \<and> remoteVideos st' p = remoteVideos st p"
  using assms
  by (auto simp: on_join_click_def Let_def bare_def split: option.splits if_splits)

lemma client_step_bare:
  assumes "bare st p" "ev \<noteq> EvPeerLeft p" "client_step env st ev = (st', l)"
  shows "bare st' p \<and> (\<forall>e \<in> set l. \<not> media_effect p e) \<and> NewPC p \<notin> set l
       \<and> remoteVideos st' p = remoteVideos st p"
proof (cases ev)
  case (EvPeerJoined q)
  obtain res where "makeCall env st q = (st', l, res)"
    using assms(3) EvPeerJoined
    by (cases "makeCall env st q") (simp add: client_on_peer_joined_def)
  then show ?thesis by (rule makeCall_bare [OF assms(1)])
next
  case (EvSignal q d)
  obtain res where "client_on_signal env st q d = (st', l, res)"
    using assms(3) EvSignal by (cases "client_on_signal env st q d") simp
  then show ?thesis by (rule client_on_signal_bare [OF assms(1)])
next
  case (EvPeerLeft q)
  then have "q \<noteq> p" "client_on_peer_left st q = (st', l)"
    using assms by simp_all
  then show ?thesis by (rule client_on_peer_left_bare [OF assms(1)])
next
  case (EvTrack q s)
  then have "pc_track_event st q s = (st', l)"
    using assms(3) by simp
  then show ?thesis by (rule pc_track_event_bare [OF assms(1)])
next
  case (EvIceCandidate q c)
  then have "pc_icecandidate_event st q c = (st', l)"
    using assms(3) by simp
  then show ?thesis by (rule pc_icecandidate_event_bare [OF assms(1)])
next
  case (EvJoinClick v)
  obtain res where "on_join_click env st v = (st', l, res)"
    using assms(3) EvJoinClick by (cases "on_join_click env st v") simp
  then show ?thesis by (rule on_join_click_bare [OF assms(1)])
qed

lemma client_run_bare:
  assumes "bare st p" "\<forall>a \<in> set evs. snd a \<noteq> EvPeerLeft p" "client_run st evs = (st', l)"
  shows "bare st' p \<and> (\<forall>e \<in> set l. \<not> media_effect p e) \<and> NewPC p \<notin> set l
       \<and> remoteVideos st' p = remoteVideos st p"
  using assms
proof (induction evs arbitrary: st st' l)
  case Nil
  then show ?case by simp
next
  case (Cons a evs)
  obtain env ev where a: "a = (env, ev)"
    by (cases a)
  obtain st1 l1 where s: "client_step env st ev = (st1, l1)"
    by (cases "client_step env st ev")
  obtain st2 l2 where r: "client_run st1 evs = (st2, l2)"
    by (cases "client_run st1 evs")
  have e: "st' = st2" "l = l1 @ l2"
    using Cons.prems(3) a s r by simp_all
  have n: "ev \<noteq> EvPeerLeft p" "\<forall>a \<in> set evs. snd a \<noteq> EvPeerLeft p"
    using Cons.prems(2) a by simp_all
  note h1 = client_step_bare [OF Cons.prems(1) n(1) s]
  then have b1: "bare st1 p" by simp
  note h2 = Cons.IH [OF b1 n(2) r]
  show ?case
    using h1 h2 e by auto
qed

text \<open>
  Claim C10. Called while \<open>localStream\<close> is null for a peer \<open>p\<close> with no connection,
  \<open>createPeerConnection\<close> registers a new connection with no track and no listener.
  Whatever reaches the page afterwards, short of a \<open>peer-left\<close> for \<open>p\<close> and including a
  later acquisition of local media, that connection keeps no track and no listener, no video
  element is created for \<open>p\<close>, no track is added for \<open>p\<close>, no candidate envelope is
  addressed to \<open>p\<close>, and the video map's entry for \<open>p\<close> stays as it was.
\<close>

theorem medialess_connection:
  assumes ls: "localStream st = None"
    and fresh: "peerConnections st p = None"
    and noleft: "\<forall>a \<in> set evs. snd a \<noteq> EvPeerLeft p"
  shows "createPeerConnection st p =
           (st\<lparr>peerConnections := (peerConnections st)(p \<mapsto> new_pc (client_iceServers st))\<rparr>,
            [NewPC p])
       \<and> bare (fst (createPeerConnection st p)) p
       \<and> bare (fst (client_run (fst (createPeerConnection st p)) evs)) p
       \<and> (\<forall>e \<in> set (snd (client_run (fst (createPeerConnection st p)) evs)). \<not> media_effect p e)
       \<and> NewPC p \<notin> set (snd (client_run (fst (createPeerConnection st p)) evs))
       \<and> remoteVideos (fst (client_run (fst (createPeerConnection st p)) evs)) p = remoteVideos st p"
proof -
  have c: "createPeerConnection st p =
           (st\<lparr>peerConnections := (peerConnections st)(p \<mapsto> new_pc (client_iceServers st))\<rparr>,
            [NewPC p])"
    using ls fresh by (simp add: createPeerConnection_def Let_def)
  define st1 where "st1 = fst (createPeerConnection st p)"
  have b: "bare st1 p"
    by (simp add: st1_def c bare_def new_pc_def)
  have v: "remoteVideos st1 p = remoteVideos st p"
    by (simp add: st1_def c)
  obtain st2 l2 where r: "client_run st1 evs = (st2, l2)"
    by (cases "client_run st1 evs")
  have "bare (fst (client_run st1 evs)) p
       \<and> (\<forall>e \<in> set (snd (client_run st1 evs)). \<not> media_effect p e)
       \<and> NewPC p \<notin> set (snd (client_run st1 evs))
       \<and> remoteVideos (fst (client_run st1 evs)) p = remoteVideos st p"
    using client_run_bare [OF b noleft r] v by (simp add: r)
  then show ?thesis
    using c b unfolding st1_def by blast
qed




theorem medialess_connection_witness:
  "bare (fst (client_run (fst (createPeerConnection init_client ''B''))
      [(ok_browser, EvJoinClick ''r1''), (ok_browser, EvTrack ''B'' (Some [''video9''])),
       (ok_browser, EvIceCandidate ''B'' (Some ''candidate:1'')),
       (ok_browser, EvPeerJoined ''B'')])) ''B''
   \<and> snd (client_run (fst (createPeerConnection init_client ''B''))
      [(ok_browser, EvJoinClick ''r1''), (ok_browser, EvTrack ''B'' (Some [''video9''])),
       (ok_browser, EvIceCandidate ''B'' (Some ''candidate:1'')),
       (ok_browser, EvPeerJoined ''B'')])
     = [GetUserMedia, SockEmitJoin ''r1'', CreateOffer ''B'',
        SetLocalDescription ''B'' \<lparr>desc_type = ''offer'', desc_sdp = Some ''v=0 offer''\<rparr>,
        SockEmitSignal (Some ''r1'')
          \<lparr>sig_type = ''offer'', sig_sdp = Some ''v=0 offer'', sig_candidate = None,
           sig_to = Some ''B''\<rparr>]"
proof -
  define evs where "evs = [(ok_browser, EvJoinClick ''r1''), (ok_browser, EvTrack ''B'' (Some [''video9''])),
       (ok_browser, EvIceCandidate ''B'' (Some ''candidate:1'')),
       (ok_browser, EvPeerJoined ''B'')]"
  have ls: "localStream init_client = None" and n: "peerConnections init_client ''B'' = None"
    by (simp_all add: init_client_def)
  have nl: "\<forall>a \<in> set evs. snd a \<noteq> EvPeerLeft ''B''"
    by (simp add: evs_def)
  have a: "bare (fst (client_run (fst (createPeerConnection init_client ''B'')) evs)) ''B''"
    using medialess_connection [OF ls n nl] by blast
  have b: "snd (client_run (fst (createPeerConnection init_client ''B'')) evs)
     = [GetUserMedia, SockEmitJoin ''r1'', CreateOffer ''B'',
        SetLocalDescription ''B'' \<lparr>desc_type = ''offer'', desc_sdp = Some ''v=0 offer''\<rparr>,
        SockEmitSignal (Some ''r1'')
          \<lparr>sig_type = ''offer'', sig_sdp = Some ''v=0 offer'', sig_candidate = None,
           sig_to = Some ''B''\<rparr>]"
    unfolding evs_def by code_simp
  show ?thesis
    using a b unfolding evs_def by (rule conjI)
qed

section \<open>Server and clients together: who sends the first offer\<close>

lemma makeCall_resolved:
  assumes cpc: "createPeerConnection st p = (st1, l1)"
    and pc: "peerConnections st1 p = Some pc"
    and co: "createOffer env pc = Some sdp"
    and offer: "offer = \<lparr>desc_type = ''offer'', desc_sdp = Some sdp\<rparr>"
    and sl: "setLocalDescription env pc offer"
  shows "makeCall env st p =
      (st1\<lparr>peerConnections := (peerConnections st1)(p \<mapsto> pc\<lparr>localDescription := Some offer\<rparr>)\<rparr>,
       l1 @ [CreateOffer p, SetLocalDescription p offer,
             SockEmitSignal (roomId st)
               \<lparr>sig_type = ''offer'', sig_sdp = Some sdp, sig_candidate = None, sig_to = Some p\<rparr>],
       Resolved)"
proof -
  have rid: "roomId st1 = roomId st"
    using cpc by (auto simp: createPeerConnection_def Let_def split: option.splits)
  show ?thesis
    using co sl by (simp add: makeCall_def cpc pc Let_def offer [symmetric] rid)
qed

text \<open>
  Claim C1, as amended. When a connected client \<open>b\<close> joins a room that \<open>a\<close> is already in,
  the server sends \<open>peer-joined\<close> for \<open>a\<close> to \<open>b\<close> once, and \<open>peer-joined\<close> for \<open>b\<close> to
  \<open>a\<close> once unless \<open>a\<close> is in the room named by \<open>b\<close>'s identifier, in which case \<open>a\<close> gets
  none. The client's handler for \<open>peer-joined\<close> is the same whoever receives it: with the
  browser accepting the steps, it gets or creates the connection for the announced peer
  and emits one \<open>offer\<close> envelope addressed to that peer. So \<open>b\<close> sends an offer toward
  \<open>a\<close>, and \<open>a\<close>, whenever it is told of \<open>b\<close>, sends an offer toward \<open>b\<close> as well.
\<close>

theorem both_sides_initiate:
  assumes st: "st = fst (server_run init_adapter evs)"
    and mem: "a \<in> set (rooms st r)"
    and ne: "a \<noteq> b"
    and conn: "b \<in> set (rooms st b)"
    and cpc: "createPeerConnection cl p = (cl1, l1)"
    and pc: "peerConnections cl1 p = Some pc"
    and co: "createOffer env pc = Some sdp"
    and offer: "offer = \<lparr>desc_type = ''offer'', desc_sdp = Some sdp\<rparr>"
    and sl: "setLocalDescription env pc offer"
  shows "count_list (snd (on_join st b r)) (Emit b (PeerJoined a)) = 1
       \<and> count_list (snd (on_join st b r)) (Emit a (PeerJoined b))
           = (if a \<in> set (rooms st b) then 0 else 1)
       \<and> client_on_peer_joined env cl p =
           (cl1\<lparr>peerConnections := (peerConnections cl1)(p \<mapsto> pc\<lparr>localDescription := Some offer\<rparr>)\<rparr>,
            l1 @ [CreateOffer p, SetLocalDescription p offer,
                  SockEmitSignal (roomId cl)
                    \<lparr>sig_type = ''offer'', sig_sdp = Some sdp, sig_candidate = None,
                     sig_to = Some p\<rparr>],
            Resolved)"
proof -
  have d: "distinct (rooms st r)"
    using reachable_inv [of evs] st by simp
  have x: "count_list (snd (on_join st b r)) (Emit b (PeerJoined a)) = 1"
    using on_join_counts(1) [OF d conn, of a] mem ne by simp
  have y: "count_list (snd (on_join st b r)) (Emit a (PeerJoined b))
             = (if a \<in> set (rooms st b) then 0 else 1)"
    using on_join_counts(2) [OF d conn, of a] mem ne by simp
  show ?thesis
    using x y makeCall_resolved [OF cpc pc co offer sl] by (simp add: client_on_peer_joined_def)
qed

theorem both_sides_initiate_witness:
  "count_list (snd (on_join (fst (server_run init_adapter
        [Connect ''A'', Connect ''B'', Join ''A'' ''r1''])) ''B'' ''r1''))
      (Emit ''B'' (PeerJoined ''A'')) = 1
   \<and> count_list (snd (on_join (fst (server_run init_adapter
        [Connect ''A'', Connect ''B'', Join ''A'' ''r1''])) ''B'' ''r1''))
      (Emit ''A'' (PeerJoined ''B'')) = 1
   \<and> snd (client_on_peer_joined ok_browser
          (fst (client_run init_client [(ok_browser, EvJoinClick ''r1'')])) ''A'')
     = ([NewPC ''A'', AddTrack ''A'' ''video0'', AddTrack ''A'' ''audio0'', CreateOffer ''A'',
         SetLocalDescription ''A'' \<lparr>desc_type = ''offer'', desc_sdp = Some ''v=0 offer''\<rparr>,
         SockEmitSignal (Some ''r1'')
           \<lparr>sig_type = ''offer'', sig_sdp = Some ''v=0 offer'', sig_candidate = None,
            sig_to = Some ''A''\<rparr>],
        Resolved)"
proof -
  define st where "st = fst (server_run init_adapter [Connect ''A'', Connect ''B'', Join ''A'' ''r1''])"
  define cl where "cl = fst (client_run init_client [(ok_browser, EvJoinClick ''r1'')])"
  define pc where "pc = (new_pc [])\<lparr>pc_tracks := [''video0'', ''audio0''], track_listener := True,
      icecandidate_listener := True\<rparr>"
  define offer where "offer = \<lparr>desc_type = ''offer'', desc_sdp = Some ''v=0 offer''\<rparr>"
  have m: "''A'' \<in> set (rooms st ''r1'')" and o: "rooms st ''B'' = [''B'']"
    unfolding st_def by code_simp+
  have conn: "''B'' \<in> set (rooms st ''B'')"
    by (simp add: o)
  have ne: "''A'' \<noteq> ''B''"
    by simp
  have r: "roomId cl = Some ''r1''" and ls: "localStream cl = Some [''video0'', ''audio0'']"
    and n: "peerConnections cl ''A'' = None" and i: "client_iceServers cl = []"
    unfolding cl_def by (simp_all add: on_join_click_def init_client_def ok_browser_def Let_def)
  have l1: "snd (createPeerConnection cl ''A'')
          = [NewPC ''A'', AddTrack ''A'' ''video0'', AddTrack ''A'' ''audio0'']"
    and p: "peerConnections (fst (createPeerConnection cl ''A'')) ''A'' = Some pc"
    using createPeerConnection_fresh [OF n] by (simp_all add: ls i pc_def)
  have co: "createOffer ok_browser pc = Some ''v=0 offer''"
    and sl: "setLocalDescription ok_browser pc offer"
    by (simp_all add: ok_browser_def)
  note t = both_sides_initiate [OF st_def m ne conn prod.collapse [symmetric] p co offer_def sl]
  have a: "count_list (snd (on_join st ''B'' ''r1'')) (Emit ''B'' (PeerJoined ''A'')) = 1"
    using t by blast
  have "count_list (snd (on_join st ''B'' ''r1'')) (Emit ''A'' (PeerJoined ''B''))
          = (if ''A'' \<in> set (rooms st ''B'') then 0 else 1)"
    using t by blast
  then have b: "count_list (snd (on_join st ''B'' ''r1'')) (Emit ''A'' (PeerJoined ''B'')) = 1"
    by (simp add: o)
  have "snd (client_on_peer_joined ok_browser cl ''A'')
     = (snd (createPeerConnection cl ''A'')
          @ [CreateOffer ''A'', SetLocalDescription ''A'' offer,
             SockEmitSignal (roomId cl)
               \<lparr>sig_type = ''offer'', sig_sdp = Some ''v=0 offer'', sig_candidate = None,
                sig_to = Some ''A''\<rparr>],
        Resolved)"
    using t by simp
  then have c: "snd (client_on_peer_joined ok_browser cl ''A'')
     = ([NewPC ''A'', AddTrack ''A'' ''video0'', AddTrack ''A'' ''audio0'', CreateOffer ''A'',
         SetLocalDescription ''A'' \<lparr>desc_type = ''offer'', desc_sdp = Some ''v=0 offer''\<rparr>,
         SockEmitSignal (Some ''r1'')
           \<lparr>sig_type = ''offer'', sig_sdp = Some ''v=0 offer'', sig_candidate = None,
            sig_to = Some ''A''\<rparr>],
        Resolved)"
    by (simp add: l1 r offer_def)
  show ?thesis
    using a b c unfolding st_def cl_def by blast
qed

text \<open>
  Claim C1 as stated fails. A is in room r1 when B joins; the server announces B to A, and
  A's client, handling that announce, sends an \<open>offer\<close> envelope addressed to B.
\<close>

theorem existing_member_offers_counterexample:
  "snd (on_join (fst (server_run init_adapter [Connect ''A'', Connect ''B'', Join ''A'' ''r1'']))
         ''B'' ''r1'')
     = [Emit ''B'' (PeerJoined ''A''), JoinRoom ''B'' ''r1'', Emit ''A'' (PeerJoined ''B'')]
   \<and> snd (client_step ok_browser (fst (client_run init_client [(ok_browser, EvJoinClick ''r1'')]))
           (EvPeerJoined ''B''))
     = [NewPC ''B'', AddTrack ''B'' ''video0'', AddTrack ''B'' ''audio0'', CreateOffer ''B'',
        SetLocalDescription ''B'' \<lparr>desc_type = ''offer'', desc_sdp = Some ''v=0 offer''\<rparr>,
        SockEmitSignal (Some ''r1'')
          \<lparr>sig_type = ''offer'', sig_sdp = Some ''v=0 offer'', sig_candidate = None,
           sig_to = Some ''B''\<rparr>]"
  by code_simp

end
